theory Spec2Isabelle
  imports Complex_Main "HOL-Library.Sublist"
begin

section \<open>Data model of \<open>src/services/api.ts\<close>\<close>

text \<open>
  The TypeScript interfaces become records. A JavaScript \<open>number\<close> is modelled as a
  \<open>real\<close> (only the constant \<open>0\<close> is ever computed with), an optional field as an
  \<open>option\<close>. Field names carry a prefix because record fields are global constants.
\<close>

record Question =
  q_id :: string
  q_type :: string
  q_question :: string
  q_options :: "string list"
  q_correct_answer :: string
  q_explanation :: string
  q_difficulty :: "real option"

record User =
  u_id :: int
  u_username :: string
  u_email :: string
  u_subscription_type :: string

record AuthResponse =
  a_message :: string
  a_user :: User
  a_token :: string

record GenerateQuestionRequest =
  g_type :: string
  g_difficulty :: "real option"

record SubmitAnswerRequest =
  s_questionId :: string
  s_userAnswer :: string
  s_responseTime :: "int option"

record SubmitAnswerResponse =
  r_correct :: bool
  r_explanation :: string
  r_correctAnswer :: string

text \<open>The anonymous return type of \<open>getUserStats\<close>; \<open>accuracyByType\<close> is an object
  literal, kept as an association list in the order it is written.\<close>

record UserStats =
  questionsAnswered :: real
  accuracy :: real
  currentStreak :: real
  longestStreak :: "real option"
  accuracyByType :: "(string \<times> real) list option"
  correctAnswers :: "real option"

subsection \<open>Thrown values, promises and the outside world\<close>

text \<open>
  A thrown value is either an \<open>Error\<close> object with its message or something that is
  not an instance of \<open>Error\<close>. A promise that settles is a sum: \<open>Inl\<close> the rejection,
  \<open>Inr\<close> the value.
\<close>

datatype js_error = Error (message: string) | NonError

text \<open>The outcome of one call of the storage primitive (\<open>AsyncStorage.getItem\<close>,
  \<open>setItem\<close>, \<open>removeItem\<close>): it resolves, or it rejects and leaves the store as it
  was.\<close>

datatype io = Resolves | Rejects js_error

text \<open>The outcome of one \<open>fetch\<close>: the promise rejects (no response was obtained), or a
  response arrives with its status and with what \<open>response.json()\<close> settles to.\<close>

datatype 'a fetch_outcome = Rejected js_error | Response nat "js_error + 'a"

text \<open>The body handed to \<open>JSON.stringify\<close>, kept structurally.\<close>

datatype body =
    NoBody
  | RegisterBody string string string
  | LoginBody string string
  | ProfileBody string string
  | PasswordBody string string
  | GenerateBody GenerateQuestionRequest
  | AnswerBody SubmitAnswerRequest

record http_call =
  endpoint :: string
  http_method :: "string option"
  headers :: "(string \<times> string) list"
  http_body :: body

text \<open>
  The state the service works on: its private field \<open>token\<close>, the persistent key-value
  store, the outbound calls made so far, and the lines written to the console (the fixed
  first argument of each \<open>console.error\<close>/\<open>console.warn\<close>).
\<close>

record world =
  token :: "string option"
  async_storage :: "string \<rightharpoonup> string"
  fetch_log :: "http_call list"
  console :: "string list"

type_synonym 'a async = "world \<Rightarrow> (js_error + 'a) \<times> world"

definition resolve :: "'a \<Rightarrow> 'a async" where
  "resolve v = (\<lambda>w. (Inr v, w))"

definition throw :: "js_error \<Rightarrow> 'a async" where
  "throw e = (\<lambda>w. (Inl e, w))"

text \<open>\<open>await m\<close> followed by the rest of the function body.\<close>

definition await :: "'a async \<Rightarrow> ('a \<Rightarrow> 'b async) \<Rightarrow> 'b async" where
  "await m f = (\<lambda>w. case m w of (Inl e, w') \<Rightarrow> (Inl e, w') | (Inr v, w') \<Rightarrow> f v w')"

text \<open>\<open>try { m } catch (error) { h error }\<close>.\<close>

definition try_catch :: "'a async \<Rightarrow> (js_error \<Rightarrow> 'a async) \<Rightarrow> 'a async" where
  "try_catch m h = (\<lambda>w. case m w of (Inl e, w') \<Rightarrow> h e w' | (Inr v, w') \<Rightarrow> (Inr v, w'))"

definition console_log :: "string \<Rightarrow> unit async" where
  "console_log line = (\<lambda>w. (Inr (), w\<lparr>console := console w @ [line]\<rparr>))"

text \<open>JavaScript truthiness of a \<open>string | null\<close>: \<open>null\<close> and the empty string are
  falsy.\<close>

definition truthy :: "string option \<Rightarrow> bool" where
  "truthy t = (case t of None \<Rightarrow> False | Some s \<Rightarrow> s \<noteq> [])"

text \<open>\<open>String.prototype.includes\<close>.\<close>

fun includes_str :: "string \<Rightarrow> string \<Rightarrow> bool" where
  "includes_str [] sub = (sub = [])"
| "includes_str (c # cs) sub = (prefix sub (c # cs) \<or> includes_str cs sub)"

text \<open>A non-negative integer inside a template literal: its decimal digits.\<close>

definition digit_char :: "nat \<Rightarrow> char" where
  "digit_char d = char_of (48 + d)"

function show_nat :: "nat \<Rightarrow> string" where
  "show_nat n = (if n < 10 then [digit_char n] else show_nat (n div 10) @ [digit_char (n mod 10)])"
  by pat_completeness auto
termination
  by (relation "measure (\<lambda>n. n)") auto

declare show_nat.simps [simp del]

subsection \<open>Token Store: \<open>loadToken\<close>, \<open>saveToken\<close>, \<open>removeToken\<close>\<close>

definition auth_token_key :: string where
  "auth_token_key = ''auth_token''"

text \<open>The three storage primitives; the outcome of the call is a parameter.\<close>

definition getItem :: "io \<Rightarrow> string \<Rightarrow> string option async" where
  "getItem out k = (\<lambda>w. case out of
      Rejects e \<Rightarrow> (Inl e, w)
    | Resolves \<Rightarrow> (Inr (async_storage w k), w))"

definition setItem :: "io \<Rightarrow> string \<Rightarrow> string \<Rightarrow> unit async" where
  "setItem out k v = (\<lambda>w. case out of
      Rejects e \<Rightarrow> (Inl e, w)
    | Resolves \<Rightarrow> (Inr (), w\<lparr>async_storage := (async_storage w)(k \<mapsto> v)\<rparr>))"

definition removeItem :: "io \<Rightarrow> string \<Rightarrow> unit async" where
  "removeItem out k = (\<lambda>w. case out of
      Rejects e \<Rightarrow> (Inl e, w)
    | Resolves \<Rightarrow> (Inr (), w\<lparr>async_storage := (async_storage w)(k := None)\<rparr>))"

definition set_token :: "string option \<Rightarrow> unit async" where
  "set_token t = (\<lambda>w. (Inr (), w\<lparr>token := t\<rparr>))"

definition loadToken :: "io \<Rightarrow> unit async" where
  "loadToken st =
     try_catch
       (await (getItem st auth_token_key) (\<lambda>v. set_token v))
       (\<lambda>error. console_log ''Failed to load token:'')"

definition saveToken :: "io \<Rightarrow> string \<Rightarrow> unit async" where
  "saveToken st t =
     try_catch
       (await (set_token (Some t)) (\<lambda>_. setItem st auth_token_key t))
       (\<lambda>error. console_log ''Failed to save token:'')"

definition removeToken :: "io \<Rightarrow> unit async" where
  "removeToken st =
     try_catch
       (await (set_token None) (\<lambda>_. removeItem st auth_token_key))
       (\<lambda>error. console_log ''Failed to remove token:'')"

text \<open>The constructor: the field starts as \<open>null\<close> and \<open>loadToken\<close> runs once.\<close>

definition new_world :: "(string \<rightharpoonup> string) \<Rightarrow> world" where
  "new_world store = \<lparr>token = None, async_storage = store, fetch_log = [], console = []\<rparr>"

definition constructor :: "io \<Rightarrow> (string \<rightharpoonup> string) \<Rightarrow> (js_error + unit) \<times> world" where
  "constructor st store = loadToken st (new_world store)"

definition getToken :: "world \<Rightarrow> string option" where
  "getToken w = token w"

definition isAuthenticated :: "world \<Rightarrow> bool" where
  "isAuthenticated w = truthy (token w)"

subsection \<open>Request Gateway: \<open>request\<close>\<close>

text \<open>No caller passes \<open>options.headers\<close>, so the headers are the content type and,
  when the token is truthy, the bearer credential.\<close>

definition request_headers :: "world \<Rightarrow> (string \<times> string) list" where
  "request_headers w =
     (''Content-Type'', ''application/json'') #
     (case token w of
        None \<Rightarrow> []
      | Some t \<Rightarrow> if t \<noteq> [] then [(''Authorization'', ''Bearer '' @ t)] else [])"

text \<open>\<open>response.ok\<close>: the status is in the range 200 to 299.\<close>

definition ok :: "nat \<Rightarrow> bool" where
  "ok status = (200 \<le> status \<and> status \<le> 299)"

definition fetch :: "string \<Rightarrow> string option \<Rightarrow> body \<Rightarrow> 'a fetch_outcome
    \<Rightarrow> 'a fetch_outcome async" where
  "fetch ep m b out = (\<lambda>w.
     let call = \<lparr>endpoint = ep, http_method = m, headers = request_headers w, http_body = b\<rparr>;
         w' = w\<lparr>fetch_log := fetch_log w @ [call]\<rparr>
     in case out of Rejected e \<Rightarrow> (Inl e, w') | Response status j \<Rightarrow> (Inr out, w'))"

definition request :: "string \<Rightarrow> string option \<Rightarrow> body \<Rightarrow> 'a fetch_outcome \<Rightarrow> io
    \<Rightarrow> 'a async" where
  "request ep m b out rm =
     try_catch
       (await (fetch ep m b out) (\<lambda>response.
          case response of
            Rejected e \<Rightarrow> throw e
          | Response status j \<Rightarrow>
              if \<not> ok status then
                (if status = 401
                 then await (removeToken rm) (\<lambda>_. throw (Error ''Authentication failed''))
                 else throw (Error (''HTTP error! status: '' @ show_nat status)))
              else (\<lambda>w. (j, w))))
       (\<lambda>error. await (console_log ''API request failed:'') (\<lambda>_. throw error))"

subsection \<open>Content Fallback Resolver: \<open>getSampleQuestion\<close>\<close>

text \<open>The four entries of the object literal \<open>sampleQuestions\<close>, one constant each.\<close>

definition sample_strengthen :: Question where
  "sample_strengthen = \<lparr>
     q_id = ''sample-strengthen-1'',
     q_type = ''strengthen'',
     q_question =
       ''A local restaurant owner claims that installing outdoor heaters will significantly increase winter revenue. She argues that customers will be more likely to dine outside during cold months if the patio is heated, thus expanding seating capacity when indoor dining is limited.\<newline>\<newline>Which of the following, if true, most strengthens the restaurant owner'' @ [CHR 0x27] @ ''s argument?'',
     q_options = [
       ''A) The cost of outdoor heaters can be recovered within six months of installation'',
       ''B) Other restaurants in the area have reported increased winter sales after installing outdoor heaters'',
       ''C) Many customers prefer dining outdoors regardless of temperature'',
       ''D) The restaurant currently has a waiting list during peak dinner hours in winter'',
       ''E) Outdoor heaters consume significant amounts of energy''],
     q_correct_answer = ''B'',
     q_explanation =
       ''Option B strengthens the argument by providing concrete evidence that outdoor heaters have actually resulted in increased winter sales for similar restaurants.'',
     q_difficulty = None\<rparr>"

definition sample_weaken :: Question where
  "sample_weaken = \<lparr>
     q_id = ''sample-weaken-1'',
     q_type = ''weaken'',
     q_question =
       ''City planners argue that building a new subway line will reduce traffic congestion downtown. They claim that many commuters will switch from driving to taking the subway, resulting in fewer cars on the roads during rush hour.\<newline>\<newline>Which of the following, if true, most weakens the planners'' @ [CHR 0x27] @ '' argument?'',
     q_options = [
       ''A) The subway line will increase property values along its route'',
       ''B) The construction of the subway will temporarily increase traffic congestion'',
       ''C) Most downtown commuters live in areas not served by the new subway line'',
       ''D) Subway tickets will cost less than parking fees downtown'',
       ''E) The subway will run every 10 minutes during rush hour''],
     q_correct_answer = ''C'',
     q_explanation =
       ''Option C weakens the argument because if most commuters live in areas not served by the subway, they cannot switch to using it, undermining the predicted reduction in traffic.'',
     q_difficulty = None\<rparr>"

definition sample_assumption :: Question where
  "sample_assumption = \<lparr>
     q_id = ''sample-assumption-1'',
     q_type = ''assumption'',
     q_question =
       ''A company CEO argues that implementing a four-day work week will increase employee productivity. She reasons that well-rested employees are more focused and efficient, so the company will accomplish the same amount of work in fewer days.\<newline>\<newline>The CEO'' @ [CHR 0x27] @ ''s argument depends on which of the following assumptions?'',
     q_options = [
       ''A) Employees currently work inefficiently due to fatigue'',
       ''B) The company does not offer four-day work weeks to competitors'',
       ''C) Employee salaries will remain the same despite working fewer days'',
       ''D) The work that needs to be completed can be done in four days instead of five'',
       ''E) Employees will not seek additional employment on their extra day off''],
     q_correct_answer = ''D'',
     q_explanation =
       ''The argument assumes that the total amount of work can actually be completed in four days. Without this assumption, the conclusion cannot follow.'',
     q_difficulty = None\<rparr>"

definition sample_flaw :: Question where
  "sample_flaw = \<lparr>
     q_id = ''sample-flaw-1'',
     q_type = ''flaw'',
     q_question =
       ''Dr. Martinez concludes that playing classical music improves mathematical ability in children. Her evidence is a study showing that students who took piano lessons for six months scored higher on math tests than those who did not take lessons.\<newline>\<newline>The reasoning is most vulnerable to criticism because it:'',
     q_options = [
       ''A) Relies on a study with too small a sample size'',
       ''B) Fails to consider that piano lessons and listening to classical music are different activities'',
       ''C) Ignores the possibility that students who choose piano lessons may already have stronger analytical skills'',
       ''D) Does not account for the students socioeconomic backgrounds'',
       ''E) Assumes that correlation between piano lessons and math scores indicates causation''],
     q_correct_answer = ''E'',
     q_explanation =
       ''The main flaw is assuming that correlation between piano lessons and math scores indicates causation. Just because students who take piano lessons score higher doesn'' @ [CHR 0x27] @ ''t mean the lessons caused the improvement.'',
     q_difficulty = None\<rparr>"

definition sampleQuestions :: "(string \<times> Question) list" where
  "sampleQuestions =
     [(''strengthen'', sample_strengthen), (''weaken'', sample_weaken),
      (''assumption'', sample_assumption), (''flaw'', sample_flaw)]"

text \<open>
  \<open>sampleQuestions[type]\<close> is a property read on an object literal. It finds the
  object's own properties first and then those it inherits from \<open>Object.prototype\<close>,
  whose property names are listed here; every one of them holds a function or an object.
\<close>

definition object_prototype_members :: "string list" where
  "object_prototype_members =
     [''constructor'', ''hasOwnProperty'', ''isPrototypeOf'', ''propertyIsEnumerable'',
      ''toLocaleString'', ''toString'', ''valueOf'', ''__proto__'',
      ''__defineGetter__'', ''__defineSetter__'', ''__lookupGetter__'', ''__lookupSetter__'']"

text \<open>What such a read yields: one of the questions, or a member of
  \<open>Object.prototype\<close> (named by its property name).\<close>

datatype js_value = QuestionObj Question | ObjectPrototypeMember string

text \<open>The property read; \<open>None\<close> is \<open>undefined\<close>.\<close>

definition get_property :: "(string \<times> Question) list \<Rightarrow> string \<Rightarrow> js_value option" where
  "get_property obj k =
     (case map_of obj k of
        Some q \<Rightarrow> Some (QuestionObj q)
      | None \<Rightarrow> if k \<in> set object_prototype_members
                then Some (ObjectPrototypeMember k) else None)"

text \<open>\<open>sampleQuestions[type] || sampleQuestions.strengthen\<close>: objects and functions are
  truthy, \<open>undefined\<close> is not.\<close>

definition getSampleQuestion :: "string \<Rightarrow> js_value" where
  "getSampleQuestion t =
     (case get_property sampleQuestions t of
        Some v \<Rightarrow> v
      | None \<Rightarrow> QuestionObj sample_strengthen)"

text \<open>The four categories of \<open>GenerateQuestionRequest.type\<close>.\<close>

datatype category = Strengthen | Weaken | Assumption | Flaw

fun category_name :: "category \<Rightarrow> string" where
  "category_name Strengthen = ''strengthen''"
| "category_name Weaken = ''weaken''"
| "category_name Assumption = ''assumption''"
| "category_name Flaw = ''flaw''"

subsection \<open>Session Facade\<close>

text \<open>
  Every operation takes the outcome of its one \<open>fetch\<close> and the outcomes of the storage
  calls it can reach, in the order of the source: \<open>rm_gw\<close> is the removal inside
  \<open>request\<close>, \<open>rm_own\<close> the one in \<open>getProfile\<close>'s handler, \<open>st\<close> the operation's own
  storage call.
\<close>

record ProfileResponse =
  p_user :: User

record MessageResponse =
  m_message :: string

definition getProfile :: "ProfileResponse fetch_outcome \<Rightarrow> io \<Rightarrow> io
    \<Rightarrow> ProfileResponse async" where
  "getProfile out rm_gw rm_own =
     try_catch
       (request ''/auth/profile'' None NoBody out rm_gw)
       (\<lambda>error.
          await (case error of
                   Error m \<Rightarrow> if includes_str m ''401'' then removeToken rm_own else resolve ()
                 | NonError \<Rightarrow> resolve ())
                (\<lambda>_. throw error))"

definition checkAuthStatus :: "ProfileResponse fetch_outcome \<Rightarrow> io \<Rightarrow> io \<Rightarrow> io \<Rightarrow> bool async"
  where
  "checkAuthStatus out rm_gw rm_own st =
     try_catch
       (\<lambda>w. if \<not> truthy (token w) then resolve False w
            else await (getProfile out rm_gw rm_own) (\<lambda>_. resolve True) w)
       (\<lambda>error.
          await (console_log ''Auth check failed:'') (\<lambda>_.
          await (removeToken st) (\<lambda>_. resolve False)))"

definition register :: "string \<Rightarrow> string \<Rightarrow> string \<Rightarrow> AuthResponse fetch_outcome \<Rightarrow> io \<Rightarrow> io
    \<Rightarrow> AuthResponse async" where
  "register username email password out rm_gw st =
     await (request ''/auth/register'' (Some ''POST'') (RegisterBody username email password)
              out rm_gw)
       (\<lambda>response. await (saveToken st (a_token response)) (\<lambda>_. resolve response))"

definition login :: "string \<Rightarrow> string \<Rightarrow> AuthResponse fetch_outcome \<Rightarrow> io \<Rightarrow> io
    \<Rightarrow> AuthResponse async" where
  "login email password out rm_gw st =
     await (request ''/auth/login'' (Some ''POST'') (LoginBody email password) out rm_gw)
       (\<lambda>response. await (saveToken st (a_token response)) (\<lambda>_. resolve response))"

definition logout :: "'a fetch_outcome \<Rightarrow> io \<Rightarrow> io \<Rightarrow> unit async" where
  "logout out rm_gw st =
     await
       (\<lambda>w. if truthy (token w)
            then try_catch
                   (await (request ''/auth/logout'' (Some ''POST'') NoBody out rm_gw)
                      (\<lambda>_. resolve ()))
                   (\<lambda>error. console_log ''Logout API call failed:'') w
            else resolve () w)
       (\<lambda>_. removeToken st)"

definition updateProfile :: "string \<Rightarrow> string \<Rightarrow> ProfileResponse fetch_outcome \<Rightarrow> io
    \<Rightarrow> ProfileResponse async" where
  "updateProfile username email out rm_gw =
     request ''/auth/profile'' (Some ''PUT'') (ProfileBody username email) out rm_gw"

definition changePassword :: "string \<Rightarrow> string \<Rightarrow> MessageResponse fetch_outcome \<Rightarrow> io
    \<Rightarrow> MessageResponse async" where
  "changePassword currentPassword newPassword out rm_gw =
     request ''/auth/password'' (Some ''PUT'') (PasswordBody currentPassword newPassword)
       out rm_gw"

text \<open>\<open>generateQuestion\<close> returns what the Gateway delivered or what
  \<open>getSampleQuestion\<close> returns.\<close>

definition generateQuestion :: "GenerateQuestionRequest \<Rightarrow> Question fetch_outcome \<Rightarrow> io
    \<Rightarrow> js_value async" where
  "generateQuestion req out rm_gw =
     try_catch
       (await (request ''/questions/generate'' (Some ''POST'') (GenerateBody req) out rm_gw)
          (\<lambda>q. resolve (QuestionObj q)))
       (\<lambda>error w.
          if \<not> isAuthenticated w then resolve (getSampleQuestion (g_type req)) w
          else throw error w)"

definition submitAnswer :: "SubmitAnswerRequest \<Rightarrow> SubmitAnswerResponse fetch_outcome \<Rightarrow> io
    \<Rightarrow> SubmitAnswerResponse async" where
  "submitAnswer req out rm_gw =
     request ''/questions/answer'' (Some ''POST'') (AnswerBody req) out rm_gw"

definition fallback_stats :: UserStats where
  "fallback_stats = \<lparr>
     questionsAnswered = 0,
     accuracy = 0,
     currentStreak = 0,
     longestStreak = Some 0,
     accuracyByType =
       Some [(''strengthen'', 0), (''weaken'', 0), (''assumption'', 0), (''flaw'', 0)],
     correctAnswers = Some 0\<rparr>"

definition getUserStats :: "UserStats fetch_outcome \<Rightarrow> io \<Rightarrow> UserStats async" where
  "getUserStats out rm_gw =
     try_catch
       (request ''/questions/stats'' None NoBody out rm_gw)
       (\<lambda>error. resolve fallback_stats)"

definition getMissedQuestions :: "Question list fetch_outcome \<Rightarrow> io \<Rightarrow> Question list async"
  where
  "getMissedQuestions out rm_gw =
     try_catch
       (request ''/questions/missed'' None NoBody out rm_gw)
       (\<lambda>error. await (console_log ''Failed to load missed questions:'') (\<lambda>_. resolve []))"

section \<open>Question lifecycle in \<open>App.tsx\<close>\<close>

text \<open>
  The \<open>useState\<close> cells that \<open>handleAnswerSelect\<close> and \<open>handleSubmit\<close> read or write,
  and the alerts raised so far. The explanation is on screen exactly when
  \<open>showExplanation\<close> holds.
\<close>

datatype alert =
    PleaseSelectAnAnswer
  | FailedToSubmitAnswer
  | ResultAlert bool string

record AppState =
  currentQuestion :: "Question option"
  selectedAnswer :: "string option"
  showExplanation :: bool
  loading :: bool
  questionStartTime :: int
  alerts :: "alert list"

definition handleAnswerSelect :: "string \<Rightarrow> AppState \<Rightarrow> AppState" where
  "handleAnswerSelect answer ui =
     (if showExplanation ui then ui else ui\<lparr>selectedAnswer := Some answer\<rparr>)"

text \<open>\<open>Math.round((Date.now() - questionStartTime) / 1000)\<close> on integer milliseconds:
  halves round up.\<close>

definition responseTime_of :: "int \<Rightarrow> int \<Rightarrow> int" where
  "responseTime_of now start = (now - start + 500) div 1000"

definition timeMessage :: "int \<Rightarrow> string" where
  "timeMessage responseTime =
     (if responseTime > 0
      then ''\<newline>\<newline>Response time: '' @ show_nat (nat responseTime) @ '' seconds''
      else [])"

text \<open>The object literal handed to \<open>submitAnswer\<close>.\<close>

definition submission :: "int \<Rightarrow> AppState \<Rightarrow> Question \<Rightarrow> string \<Rightarrow> SubmitAnswerRequest" where
  "submission now ui q answer =
     \<lparr>s_questionId = q_id q, s_userAnswer = answer,
      s_responseTime = Some (responseTime_of now (questionStartTime ui))\<rparr>"

text \<open>\<open>handleSubmit\<close>, with the clock reading \<open>now\<close>; the alert that \<open>setTimeout\<close>
  schedules is recorded when it is scheduled.\<close>

definition handleSubmit :: "int \<Rightarrow> SubmitAnswerResponse fetch_outcome \<Rightarrow> io
    \<Rightarrow> AppState \<times> world \<Rightarrow> AppState \<times> world" where
  "handleSubmit now out rm_gw st =
     (case st of (ui, w) \<Rightarrow>
        (case (selectedAnswer ui, currentQuestion ui) of
           (Some answer, Some q) \<Rightarrow>
             if answer = [] then (ui\<lparr>alerts := alerts ui @ [PleaseSelectAnAnswer]\<rparr>, w)
             else
               (let ui1 = ui\<lparr>loading := True\<rparr>;
                    responseTime = responseTime_of now (questionStartTime ui)
                in case submitAnswer (submission now ui q answer) out rm_gw w of
                     (Inr result, w') \<Rightarrow>
                       (ui1\<lparr>showExplanation := True,
                            alerts := alerts ui1 @
                              [ResultAlert (r_correct result)
                                 (r_explanation result @ timeMessage responseTime)],
                            loading := False\<rparr>, w')
                   | (Inl error, w') \<Rightarrow>
                       (ui1\<lparr>alerts := alerts ui1 @ [FailedToSubmitAnswer],
                            loading := False\<rparr>, w'))
         | _ \<Rightarrow> (ui\<lparr>alerts := alerts ui @ [PleaseSelectAnAnswer]\<rparr>, w)))"

section \<open>Auxiliary notions for stating the properties\<close>

text \<open>The world right after \<open>fetch\<close> has been called: the call is in the log, with the
  headers the Gateway built from the token of that moment.\<close>

definition logged :: "string \<Rightarrow> string option \<Rightarrow> body \<Rightarrow> world \<Rightarrow> world" where
  "logged ep m b w = w\<lparr>fetch_log := fetch_log w @
      [\<lparr>endpoint = ep, http_method = m, headers = request_headers w, http_body = b\<rparr>]\<rparr>"

text \<open>Two concrete worlds: a device holding the credential \<open>abc\<close> both in memory and in
  the store, and a fresh guest device.\<close>

definition signed_in :: world where
  "signed_in = \<lparr>token = Some ''abc'', async_storage = [auth_token_key \<mapsto> ''abc''],
     fetch_log = [], console = []\<rparr>"

definition guest :: world where
  "guest = new_world Map.empty"

text \<open>A question and a grading result to run the controller on.\<close>

definition graded_ok :: SubmitAnswerResponse where
  "graded_ok = \<lparr>r_correct = True, r_explanation = ''Because.'', r_correctAnswer = ''B''\<rparr>"

definition answering :: AppState where
  "answering = \<lparr>currentQuestion = Some sample_strengthen, selectedAnswer = Some ''B'',
     showExplanation = False, loading = False, questionStartTime = 1000, alerts = []\<rparr>"

definition graded_state :: AppState where
  "graded_state = answering\<lparr>showExplanation := True\<rparr>"

text \<open>Two requests for a question.\<close>

definition weaken_request :: GenerateQuestionRequest where
  "weaken_request = \<lparr>g_type = ''weaken'', g_difficulty = None\<rparr>"

definition strengthen_request :: GenerateQuestionRequest where
  "strengthen_request = \<lparr>g_type = ''strengthen'', g_difficulty = None\<rparr>"

section \<open>What the Token Store and the Gateway compute\<close>

lemmas async_defs = resolve_def throw_def await_def try_catch_def console_log_def

lemmas store_defs = getItem_def setItem_def removeItem_def set_token_def

lemma removeToken_eq:
  "removeToken st w = (Inr (), (case st of
       Resolves \<Rightarrow> w\<lparr>token := None, async_storage := (async_storage w)(auth_token_key := None)\<rparr>
     | Rejects e \<Rightarrow> w\<lparr>token := None, console := console w @ [''Failed to remove token:'']\<rparr>))"
  by (simp add: removeToken_def async_defs store_defs split: io.splits)

lemma saveToken_eq:
  "saveToken st t w = (Inr (), (case st of
       Resolves \<Rightarrow> w\<lparr>token := Some t, async_storage := (async_storage w)(auth_token_key \<mapsto> t)\<rparr>
     | Rejects e \<Rightarrow> w\<lparr>token := Some t, console := console w @ [''Failed to save token:'']\<rparr>))"
  by (simp add: saveToken_def async_defs store_defs split: io.splits)

lemma loadToken_eq:
  "loadToken st w = (Inr (), (case st of
       Resolves \<Rightarrow> w\<lparr>token := async_storage w auth_token_key\<rparr>
     | Rejects e \<Rightarrow> w\<lparr>console := console w @ [''Failed to load token:'']\<rparr>))"
  by (simp add: loadToken_def async_defs store_defs split: io.splits)

lemma token_logged [simp]: "token (logged ep m b w) = token w"
  by (simp add: logged_def)

lemma storage_logged [simp]: "async_storage (logged ep m b w) = async_storage w"
  by (simp add: logged_def)

lemma console_logged [simp]: "console (logged ep m b w) = console w"
  by (simp add: logged_def)

lemma fetch_log_logged [simp]:
  "fetch_log (logged ep m b w) = fetch_log w @
     [\<lparr>endpoint = ep, http_method = m, headers = request_headers w, http_body = b\<rparr>]"
  by (simp add: logged_def)

lemma not_ok_401: "\<not> ok 401"
  by (simp add: ok_def)

text \<open>The four ways a \<open>request\<close> ends: no response, a parsed or unparsable body of a 2xx
  response, a 401, any other status.\<close>

lemma request_eq:
  "request ep m b out rm w =
    (case out of
       Rejected e \<Rightarrow>
         (Inl e, (logged ep m b w)\<lparr>console := console w @ [''API request failed:'']\<rparr>)
     | Response status j \<Rightarrow>
         if ok status then
           (case j of
              Inr v \<Rightarrow> (Inr v, logged ep m b w)
            | Inl e \<Rightarrow>
                (Inl e, (logged ep m b w)\<lparr>console := console w @ [''API request failed:'']\<rparr>))
         else if status = 401 then
           (Inl (Error ''Authentication failed''),
            (snd (removeToken rm (logged ep m b w)))
              \<lparr>console := console (snd (removeToken rm (logged ep m b w))) @
                 [''API request failed:'']\<rparr>)
         else
           (Inl (Error (''HTTP error! status: '' @ show_nat status)),
            (logged ep m b w)\<lparr>console := console w @ [''API request failed:'']\<rparr>))"
  by (simp add: request_def fetch_def logged_def async_defs removeToken_eq Let_def
      split: fetch_outcome.splits sum.splits io.splits)

lemma request_401:
  "request ep m b (Response 401 j) rm w =
     (Inl (Error ''Authentication failed''),
      (snd (removeToken rm (logged ep m b w)))
         \<lparr>console := console (snd (removeToken rm (logged ep m b w))) @
            [''API request failed:'']\<rparr>)"
  by (simp add: request_eq not_ok_401)

lemma request_log:
  "fetch_log (snd (request ep m b out rm w)) = fetch_log w @
     [\<lparr>endpoint = ep, http_method = m, headers = request_headers w, http_body = b\<rparr>]"
  by (simp add: request_eq removeToken_eq split: fetch_outcome.splits sum.splits io.splits)

lemma headers_no_token:
  "token w = None \<Longrightarrow> request_headers w = [(''Content-Type'', ''application/json'')]"
  by (simp add: request_headers_def)

lemma show_500: "show_nat 500 = ''500''"
  by code_simp

text \<open>\<open>getProfile\<close> adds one thing to the Gateway's outcome: a second removal when the
  message of the error contains \<open>401\<close>.\<close>

lemma getProfile_eq:
  "getProfile out rm_gw rm_own w =
     (case request ''/auth/profile'' None NoBody out rm_gw w of
        (Inr v, w1) \<Rightarrow> (Inr v, w1)
      | (Inl NonError, w1) \<Rightarrow> (Inl NonError, w1)
      | (Inl (Error msg), w1) \<Rightarrow>
          (Inl (Error msg),
           if includes_str msg ''401'' then snd (removeToken rm_own w1) else w1))"
  by (simp add: getProfile_def async_defs removeToken_eq
      split: prod.splits sum.splits js_error.splits)

lemma getProfile_log:
  "fetch_log (snd (getProfile out rm_gw rm_own w)) = fetch_log w @
     [\<lparr>endpoint = ''/auth/profile'', http_method = None, headers = request_headers w,
       http_body = NoBody\<rparr>]"
proof (cases "request ''/auth/profile'' None NoBody out rm_gw w
    :: (js_error + ProfileResponse) \<times> world")
  case (Pair r w1)
  then have "fetch_log w1 = fetch_log w @
     [\<lparr>endpoint = ''/auth/profile'', http_method = None, headers = request_headers w,
       http_body = NoBody\<rparr>]"
    using request_log [of "''/auth/profile''" None NoBody out rm_gw w] by simp
  then show ?thesis
    using Pair
    by (simp add: getProfile_eq removeToken_eq split: sum.splits js_error.splits io.splits)
qed

lemma checkAuthStatus_eq:
  "checkAuthStatus out rm_gw rm_own st w =
    (if \<not> truthy (token w) then (Inr False, w)
     else case getProfile out rm_gw rm_own w of
            (Inr v, w1) \<Rightarrow> (Inr True, w1)
          | (Inl e, w1) \<Rightarrow>
              (Inr False,
               snd (removeToken st (w1\<lparr>console := console w1 @ [''Auth check failed:'']\<rparr>))))"
  by (simp add: checkAuthStatus_def async_defs removeToken_eq
      split: prod.splits sum.splits io.splits)


lemma logout_eq:
  "logout out rm_gw st w =
     removeToken st
       (if truthy (token w)
        then (case request ''/auth/logout'' (Some ''POST'') NoBody out rm_gw w of
                (Inr v, w1) \<Rightarrow> w1
              | (Inl e, w1) \<Rightarrow> w1\<lparr>console := console w1 @ [''Logout API call failed:'']\<rparr>)
        else w)"
  by (simp add: logout_def async_defs split: prod.splits sum.splits)

lemma generateQuestion_eq:
  "generateQuestion req out rm w =
     (case request ''/questions/generate'' (Some ''POST'') (GenerateBody req) out rm w of
        (Inr q, w1) \<Rightarrow> (Inr (QuestionObj q), w1)
      | (Inl e, w1) \<Rightarrow>
          if \<not> isAuthenticated w1 then (Inr (getSampleQuestion (g_type req)), w1)
          else (Inl e, w1))"
  by (simp add: generateQuestion_def async_defs split: prod.splits sum.splits)

text \<open>After a failed request the service is authenticated exactly when it was before
  and the failure was not a 401.\<close>

lemma request_failure_auth:
  assumes "fst (request ep m b out rm w) = Inl e"
  shows "isAuthenticated (snd (request ep m b out rm w)) \<longleftrightarrow>
           isAuthenticated w \<and> (\<forall>j. out \<noteq> Response 401 j)"
  using assms
  by (auto simp add: request_eq isAuthenticated_def removeToken_eq truthy_def not_ok_401
      split: fetch_outcome.splits sum.splits if_splits io.splits)

lemma map_of_sampleQuestions:
  "map_of sampleQuestions (category_name c) =
     Some (case c of Strengthen \<Rightarrow> sample_strengthen | Weaken \<Rightarrow> sample_weaken
           | Assumption \<Rightarrow> sample_assumption | Flaw \<Rightarrow> sample_flaw)"
  by (cases c) (simp_all add: sampleQuestions_def)

lemma getSampleQuestion_category:
  "getSampleQuestion (category_name c) =
     QuestionObj (case c of Strengthen \<Rightarrow> sample_strengthen | Weaken \<Rightarrow> sample_weaken
           | Assumption \<Rightarrow> sample_assumption | Flaw \<Rightarrow> sample_flaw)"
  by (simp add: getSampleQuestion_def get_property_def map_of_sampleQuestions)

lemma sample_type:
  "q_type (case c of Strengthen \<Rightarrow> sample_strengthen | Weaken \<Rightarrow> sample_weaken
           | Assumption \<Rightarrow> sample_assumption | Flaw \<Rightarrow> sample_flaw) = category_name c"
  by (cases c)
    (simp_all add: sample_strengthen_def sample_weaken_def sample_assumption_def
      sample_flaw_def)

lemma auth_signed_in: "isAuthenticated signed_in"
  by (simp add: isAuthenticated_def truthy_def signed_in_def)

lemma auth_guest: "\<not> isAuthenticated guest"
  by (simp add: isAuthenticated_def truthy_def guest_def new_world_def)

lemma handleSubmit_unready:
  "\<not> truthy (selectedAnswer ui) \<or> currentQuestion ui = None \<Longrightarrow>
   handleSubmit now out rm (ui, w) = (ui\<lparr>alerts := alerts ui @ [PleaseSelectAnAnswer]\<rparr>, w)"
  by (auto simp add: handleSubmit_def truthy_def split: option.splits)

lemma handleSubmit_ready:
  "selectedAnswer ui = Some a \<Longrightarrow> a \<noteq> [] \<Longrightarrow> currentQuestion ui = Some q \<Longrightarrow>
   handleSubmit now out rm (ui, w) =
     (case submitAnswer (submission now ui q a) out rm w of
        (Inr result, w') \<Rightarrow>
          (ui\<lparr>showExplanation := True,
              alerts := alerts ui @
                [ResultAlert (r_correct result)
                   (r_explanation result @
                    timeMessage (responseTime_of now (questionStartTime ui)))],
              loading := False\<rparr>, w')
      | (Inl e, w') \<Rightarrow>
          (ui\<lparr>alerts := alerts ui @ [FailedToSubmitAnswer], loading := False\<rparr>, w'))"
  by (simp add: handleSubmit_def Let_def split: prod.splits sum.splits)


section \<open>Token Store\<close>

text \<open>
  C7. \<open>loadToken\<close>, \<open>saveToken\<close> and \<open>removeToken\<close> always resolve, whatever the storage
  primitive does: no storage failure reaches the caller. After \<open>saveToken t\<close> the cached
  token is \<open>t\<close> and after \<open>removeToken\<close> it is \<open>null\<close>, also when the storage write
  rejects; a service constructed over a store whose read rejects holds no credential.
\<close>

theorem token_store_swallows_storage_failures:
  "fst (loadToken st w) = Inr () \<and> fst (saveToken st t w) = Inr ()
   \<and> fst (removeToken st w) = Inr ()
   \<and> token (snd (saveToken st t w)) = Some t
   \<and> token (snd (removeToken st w)) = None
   \<and> token (snd (saveToken (Rejects e) t w)) = Some t
   \<and> token (snd (removeToken (Rejects e) w)) = None
   \<and> fst (constructor (Rejects e) store) = Inr ()
   \<and> token (snd (constructor (Rejects e) store)) = None"
  by (simp add: loadToken_eq saveToken_eq removeToken_eq constructor_def new_world_def
      split: io.splits)

text \<open>
  C9. \<open>isAuthenticated\<close> holds exactly when the cached token is a non-empty string.
  After \<open>saveToken t\<close> the cached token is \<open>t\<close>, and the service is authenticated exactly
  when \<open>t\<close> is not empty: saving the empty string caches it and (when the write
  resolves) persists it under the key, yet \<open>isAuthenticated\<close> is false.
\<close>

theorem isAuthenticated_iff_nonempty_token:
  "(isAuthenticated w \<longleftrightarrow> (\<exists>t. token w = Some t \<and> t \<noteq> []))
   \<and> getToken (snd (saveToken st t w)) = Some t
   \<and> (isAuthenticated (snd (saveToken st t w)) \<longleftrightarrow> t \<noteq> [])
   \<and> getToken (snd (saveToken Resolves [] w)) = Some []
   \<and> async_storage (snd (saveToken Resolves [] w)) auth_token_key = Some []
   \<and> \<not> isAuthenticated (snd (saveToken Resolves [] w))"
  by (auto simp add: isAuthenticated_def getToken_def truthy_def saveToken_eq
      split: io.splits option.splits)

section \<open>Request Gateway\<close>

text \<open>
  C2. A \<open>request\<close> answered with status 401 fails with the error
  \<open>Authentication failed\<close>. A request answered with any other status outside 200 to 299
  fails with \<open>HTTP error! status: n\<close> for that status, which is a different error, so
  no other HTTP failure is mistaken for the 401. On the 401 the Token Store's removal has
  run first: the cached
  token is \<open>null\<close>, the stored key is removed when the storage call resolves, and the
  headers of the next request, whatever it is, are the content type alone. A request
  that ends in any other way (a parsed body, another status, no response) leaves the
  cached token and the store as they were.
\<close>

theorem request_invalidates_credential_on_401_only:
  "fst (request ep m b (Response 401 j) rm w) = Inl (Error ''Authentication failed'')
   \<and> Error ''Authentication failed'' \<noteq> Error (''HTTP error! status: '' @ show_nat n)
   \<and> token (snd (request ep m b (Response 401 j) rm w)) = None
   \<and> async_storage (snd (request ep m b (Response 401 j) rm w)) =
       (case rm of
          Resolves \<Rightarrow> (async_storage w)(auth_token_key := None)
        | Rejects e \<Rightarrow> async_storage w)
   \<and> fetch_log (snd (request ep' m' b' out' rm' (snd (request ep m b (Response 401 j) rm w)))) =
       fetch_log w @
        [\<lparr>endpoint = ep, http_method = m, headers = request_headers w, http_body = b\<rparr>,
         \<lparr>endpoint = ep', http_method = m',
           headers = [(''Content-Type'', ''application/json'')], http_body = b'\<rparr>]
   \<and> ((\<forall>j'. out \<noteq> Response 401 j') \<longrightarrow>
         token (snd (request ep m b out rm w)) = token w
       \<and> async_storage (snd (request ep m b out rm w)) = async_storage w)
   \<and> (\<not> ok status \<and> status \<noteq> 401 \<longrightarrow>
         fst (request ep m b (Response status j) rm w) =
           Inl (Error (''HTTP error! status: '' @ show_nat status))
       \<and> fst (request ep m b (Response status j) rm w) \<noteq>
           fst (request ep m b (Response 401 j) rm w))"
proof (intro conjI)
  show "fst (request ep m b (Response 401 j) rm w) = Inl (Error ''Authentication failed'')"
    by (simp add: request_401)
  show "Error ''Authentication failed'' \<noteq> Error (''HTTP error! status: '' @ show_nat n)"
    by simp
  show "token (snd (request ep m b (Response 401 j) rm w)) = None"
    by (simp add: request_401 removeToken_eq split: io.splits)
  show "async_storage (snd (request ep m b (Response 401 j) rm w)) =
       (case rm of
          Resolves \<Rightarrow> (async_storage w)(auth_token_key := None)
        | Rejects e \<Rightarrow> async_storage w)"
    by (simp add: request_401 removeToken_eq split: io.splits)
  show "fetch_log (snd (request ep' m' b' out' rm' (snd (request ep m b (Response 401 j) rm w)))) =
       fetch_log w @
        [\<lparr>endpoint = ep, http_method = m, headers = request_headers w, http_body = b\<rparr>,
         \<lparr>endpoint = ep', http_method = m',
           headers = [(''Content-Type'', ''application/json'')], http_body = b'\<rparr>]"
    by (simp add: request_log request_401 removeToken_eq headers_no_token split: io.splits)
  show "(\<forall>j'. out \<noteq> Response 401 j') \<longrightarrow>
         token (snd (request ep m b out rm w)) = token w
       \<and> async_storage (snd (request ep m b out rm w)) = async_storage w"
    by (auto simp add: request_eq split: fetch_outcome.splits sum.splits)
  show "\<not> ok status \<and> status \<noteq> 401 \<longrightarrow>
         fst (request ep m b (Response status j) rm w) =
           Inl (Error (''HTTP error! status: '' @ show_nat status))
       \<and> fst (request ep m b (Response status j) rm w) \<noteq>
           fst (request ep m b (Response 401 j) rm w)"
    by (simp add: request_eq not_ok_401)
qed

theorem request_invalidates_credential_on_401_only_witness:
  "(\<forall>j'. (Response 500 (Inl NonError) :: unit fetch_outcome) \<noteq> Response 401 j')
   \<and> token (snd (request ''/questions/stats'' None NoBody
        (Response 500 (Inl NonError) :: unit fetch_outcome) Resolves signed_in)) = Some ''abc''
   \<and> async_storage (snd (request ''/questions/stats'' None NoBody
        (Response 500 (Inl NonError) :: unit fetch_outcome) Resolves signed_in)) auth_token_key
       = Some ''abc''
   \<and> token (snd (request ''/questions/stats'' None NoBody
        (Response 401 (Inl NonError) :: unit fetch_outcome) Resolves signed_in)) = None
   \<and> \<not> ok 500 \<and> (500::nat) \<noteq> 401
   \<and> fst (request ''/questions/stats'' None NoBody
        (Response 500 (Inl NonError) :: unit fetch_outcome) Resolves signed_in)
       = Inl (Error ''HTTP error! status: 500'')
   \<and> fst (request ''/questions/stats'' None NoBody
        (Response 500 (Inl NonError) :: unit fetch_outcome) Resolves signed_in)
       \<noteq> fst (request ''/questions/stats'' None NoBody
        (Response 401 (Inl NonError) :: unit fetch_outcome) Resolves signed_in)"
proof -
  have h: "\<not> ok 500 \<and> (500::nat) \<noteq> 401"
    by (simp add: ok_def)
  show ?thesis
    using h request_invalidates_credential_on_401_only
      [of "''/questions/stats''" None NoBody "Inl NonError :: js_error + unit" Resolves signed_in
        0 "''/auth/profile''" None NoBody "Rejected NonError :: unit fetch_outcome" Resolves
        "Response 500 (Inl NonError) :: unit fetch_outcome" 500]
    by (simp add: signed_in_def show_500)
qed

section \<open>Session Facade\<close>

text \<open>
  C10. The message of the Gateway's 401 error, \<open>Authentication failed\<close>, does not contain
  \<open>401\<close>, so on a 401 the handler of \<open>getProfile\<close> skips its own removal: \<open>getProfile\<close>
  ends with the very error and the very world that \<open>request\<close> ends with, and the outcome
  that the handler's storage call would have had makes no difference.
\<close>

theorem getProfile_401_leaves_gateway_state:
  "\<not> includes_str ''Authentication failed'' ''401''
   \<and> getProfile (Response 401 j) rm_gw rm_own w =
       request ''/auth/profile'' None NoBody (Response 401 j) rm_gw w
   \<and> fst (getProfile (Response 401 j) rm_gw rm_own w) = Inl (Error ''Authentication failed'')
   \<and> snd (getProfile (Response 401 j) rm_gw (Rejects e) w) =
       snd (getProfile (Response 401 j) rm_gw Resolves w)"
  by (simp add: getProfile_def request_401 async_defs)

text \<open>
  C5. \<open>getUserStats\<close> and \<open>getMissedQuestions\<close> always resolve. Whenever the Gateway's
  request fails, \<open>getUserStats\<close> resolves to the record of zeros written in the source and
  \<open>getMissedQuestions\<close> to the empty list.
\<close>

theorem stats_and_missed_questions_never_fail:
  "(\<exists>v. fst (getUserStats out rm w) = Inr v)
   \<and> (\<exists>qs. fst (getMissedQuestions out' rm' w') = Inr qs)
   \<and> (\<forall>e. fst (request ''/questions/stats'' None NoBody out rm w) = Inl e \<longrightarrow>
         fst (getUserStats out rm w) =
           Inr \<lparr>questionsAnswered = 0, accuracy = 0, currentStreak = 0, longestStreak = Some 0,
                accuracyByType = Some [(''strengthen'', 0), (''weaken'', 0),
                                       (''assumption'', 0), (''flaw'', 0)],
                correctAnswers = Some 0\<rparr>)
   \<and> (\<forall>e. fst (request ''/questions/missed'' None NoBody out' rm' w') = Inl e \<longrightarrow>
         fst (getMissedQuestions out' rm' w') = Inr [])"
  by (auto simp add: getUserStats_def getMissedQuestions_def try_catch_def resolve_def
      await_def console_log_def fallback_stats_def split: prod.splits sum.splits)

theorem stats_and_missed_questions_never_fail_witness:
  "fst (request ''/questions/stats'' None NoBody
         (Rejected NonError :: UserStats fetch_outcome) Resolves guest) = Inl NonError
   \<and> fst (getUserStats (Rejected NonError) Resolves guest) =
       Inr \<lparr>questionsAnswered = 0, accuracy = 0, currentStreak = 0, longestStreak = Some 0,
            accuracyByType = Some [(''strengthen'', 0), (''weaken'', 0),
                                   (''assumption'', 0), (''flaw'', 0)],
            correctAnswers = Some 0\<rparr>
   \<and> fst (request ''/questions/missed'' None NoBody
         (Response 500 (Inl NonError) :: Question list fetch_outcome) Resolves signed_in) =
       Inl (Error ''HTTP error! status: 500'')
   \<and> fst (getMissedQuestions (Response 500 (Inl NonError)) Resolves signed_in) = Inr []"
  using stats_and_missed_questions_never_fail
    [of "Rejected NonError" Resolves guest "Response 500 (Inl NonError)" Resolves signed_in]
  by (simp add: request_eq ok_def show_500)

text \<open>
  C4. When the cached token is falsy, \<open>checkAuthStatus\<close> resolves to false and leaves the
  world as it was, so nothing was sent. Otherwise it sends exactly the one profile request
  of \<open>getProfile\<close>; it resolves to true exactly when \<open>getProfile\<close> resolves; and when
  \<open>getProfile\<close> fails, with whatever error, it resolves to false with the cached token set
  to \<open>null\<close> (and the stored key removed when that storage call resolves).
\<close>

theorem checkAuthStatus_verifies_by_profile:
  "(\<not> truthy (token w) \<longrightarrow> checkAuthStatus out rm_gw rm_own st w = (Inr False, w))
   \<and> (truthy (token w) \<longrightarrow>
        fetch_log (snd (checkAuthStatus out rm_gw rm_own st w)) = fetch_log w @
          [\<lparr>endpoint = ''/auth/profile'', http_method = None,
            headers = request_headers w, http_body = NoBody\<rparr>]
      \<and> (fst (checkAuthStatus out rm_gw rm_own st w) = Inr True \<longleftrightarrow>
           (\<exists>v. fst (getProfile out rm_gw rm_own w) = Inr v))
      \<and> (\<forall>e. fst (getProfile out rm_gw rm_own w) = Inl e \<longrightarrow>
            fst (checkAuthStatus out rm_gw rm_own st w) = Inr False
          \<and> token (snd (checkAuthStatus out rm_gw rm_own st w)) = None
          \<and> (st = Resolves \<longrightarrow>
               async_storage (snd (checkAuthStatus out rm_gw rm_own st w)) auth_token_key
                 = None)))"
proof (cases "truthy (token w)")
  case False
  then show ?thesis by (simp add: checkAuthStatus_eq)
next
  case True
  obtain r w1 where p: "getProfile out rm_gw rm_own w = (r, w1)"
    by (cases "getProfile out rm_gw rm_own w")
  have l: "fetch_log w1 = fetch_log w @
          [\<lparr>endpoint = ''/auth/profile'', http_method = None,
            headers = request_headers w, http_body = NoBody\<rparr>]"
    using getProfile_log [of out rm_gw rm_own w] p by simp
  show ?thesis
  proof (cases r)
    case (Inl e)
    then show ?thesis
      using True p l by (cases st) (simp_all add: checkAuthStatus_eq removeToken_eq)
  next
    case (Inr v)
    then show ?thesis
      using True p l by (simp add: checkAuthStatus_eq)
  qed
qed

theorem checkAuthStatus_verifies_by_profile_witness:
  "\<not> truthy (token guest)
   \<and> checkAuthStatus
        (Response 200 (Inr \<lparr>p_user = \<lparr>u_id = 1, u_username = ''u'', u_email = ''e'',
                                      u_subscription_type = ''free''\<rparr>\<rparr>))
        Resolves Resolves Resolves guest = (Inr False, guest)
   \<and> truthy (token signed_in)
   \<and> fst (getProfile (Response 500 (Inl NonError)) Resolves Resolves signed_in)
        = Inl (Error ''HTTP error! status: 500'')
   \<and> fst (checkAuthStatus (Response 500 (Inl NonError)) Resolves Resolves Resolves signed_in)
        = Inr False
   \<and> token (snd (checkAuthStatus (Response 500 (Inl NonError)) Resolves Resolves Resolves
        signed_in)) = None
   \<and> async_storage (snd (checkAuthStatus (Response 500 (Inl NonError)) Resolves Resolves
        Resolves signed_in)) auth_token_key = None"
proof -
  have g: "\<not> truthy (token guest)"
    by (simp add: guest_def new_world_def truthy_def)
  have s: "truthy (token signed_in)"
    by (simp add: signed_in_def truthy_def)
  have f: "fst (getProfile (Response 500 (Inl NonError)) Resolves Resolves signed_in)
        = Inl (Error ''HTTP error! status: 500'')"
    by (simp add: getProfile_eq request_eq ok_def show_500)
  show ?thesis
    using g s f
      checkAuthStatus_verifies_by_profile
        [of guest "Response 200 (Inr \<lparr>p_user = \<lparr>u_id = 1, u_username = ''u'',
            u_email = ''e'', u_subscription_type = ''free''\<rparr>\<rparr>)" Resolves Resolves Resolves]
      checkAuthStatus_verifies_by_profile
        [of signed_in "Response 500 (Inl NonError)" Resolves Resolves Resolves]
    by simp
qed

text \<open>
  C3, as amended. \<open>logout\<close> always resolves, whatever the credential, the network and
  the storage do, and leaves the cached token \<open>null\<close>, so \<open>isAuthenticated\<close> is false;
  the stored key is absent afterwards whenever the final storage removal resolves.
\<close>

theorem logout_clears_cached_credential:
  "fst (logout out rm_gw st w) = Inr ()
   \<and> token (snd (logout out rm_gw st w)) = None
   \<and> \<not> isAuthenticated (snd (logout out rm_gw st w))
   \<and> (st = Resolves \<longrightarrow> async_storage (snd (logout out rm_gw st w)) auth_token_key = None)"
  by (simp add: logout_eq removeToken_eq isAuthenticated_def truthy_def split: io.splits)

theorem logout_clears_cached_credential_witness:
  "fst (logout (Rejected NonError :: unit fetch_outcome) Resolves Resolves signed_in) = Inr ()
   \<and> token (snd (logout (Rejected NonError :: unit fetch_outcome) Resolves Resolves signed_in)) = None
   \<and> \<not> isAuthenticated (snd (logout (Rejected NonError :: unit fetch_outcome) Resolves Resolves signed_in))
   \<and> async_storage (snd (logout (Rejected NonError :: unit fetch_outcome) Resolves Resolves signed_in))
        auth_token_key = None"
  using logout_clears_cached_credential [of "Rejected NonError :: unit fetch_outcome" Resolves Resolves signed_in]
  by simp

text \<open>
  C3 as stated fails: when \<open>removeItem\<close> rejects, \<open>removeToken\<close> swallows the rejection
  and the stored key stays, whether the logout request succeeded or not.
\<close>

theorem logout_stored_key_survives_failed_removal:
  "fst (logout (Response 200 (Inr ())) Resolves (Rejects NonError) signed_in) = Inr ()
   \<and> async_storage (snd (logout (Response 200 (Inr ())) Resolves (Rejects NonError) signed_in))
        auth_token_key = Some ''abc''
   \<and> async_storage (snd (logout (Rejected NonError :: unit fetch_outcome) Resolves (Rejects NonError) signed_in))
        auth_token_key = Some ''abc''"
  by (simp add: logout_eq removeToken_eq request_eq ok_def signed_in_def truthy_def)

text \<open>
  C1, as amended. For each of the four categories the fallback is a question of that
  category. When the generation request fails: a caller who was not authenticated gets
  the fallback for the requested type; a caller who was authenticated gets the Gateway's
  error unchanged, unless the failure is a 401; on a 401 the Gateway has already removed
  the token when the handler asks \<open>isAuthenticated\<close>, so the fallback is returned.
\<close>

theorem generateQuestion_falls_back_when_unauthenticated_after_failure:
  "(\<exists>q. getSampleQuestion (category_name c) = QuestionObj q \<and> q_type q = category_name c)
   \<and> (\<forall>e. fst (request ''/questions/generate'' (Some ''POST'') (GenerateBody req) out rm w) = Inl e
        \<longrightarrow>
          (\<not> isAuthenticated w \<longrightarrow>
             fst (generateQuestion req out rm w) = Inr (getSampleQuestion (g_type req)))
        \<and> (isAuthenticated w \<and> (\<forall>j. out \<noteq> Response 401 j) \<longrightarrow>
             fst (generateQuestion req out rm w) = Inl e)
        \<and> ((\<exists>j. out = Response 401 j) \<longrightarrow>
             fst (generateQuestion req out rm w) = Inr (getSampleQuestion (g_type req))))"
proof (intro conjI allI impI)
  show "\<exists>q. getSampleQuestion (category_name c) = QuestionObj q \<and> q_type q = category_name c"
    by (simp add: getSampleQuestion_category sample_type)
next
  fix e
  assume f: "fst (request ''/questions/generate'' (Some ''POST'') (GenerateBody req) out rm w) = Inl e"
  obtain w1 where r: "request ''/questions/generate'' (Some ''POST'') (GenerateBody req) out rm w = (Inl e, w1)"
    using f by (cases "request ''/questions/generate'' (Some ''POST'') (GenerateBody req) out rm w") simp
  have a: "isAuthenticated w1 \<longleftrightarrow> isAuthenticated w \<and> (\<forall>j. out \<noteq> Response 401 j)"
    using request_failure_auth [OF f] r by simp
  {
    assume "\<not> isAuthenticated w"
    then show "fst (generateQuestion req out rm w) = Inr (getSampleQuestion (g_type req))"
      using r a by (simp add: generateQuestion_eq)
  }
  {
    assume "isAuthenticated w \<and> (\<forall>j. out \<noteq> Response 401 j)"
    then show "fst (generateQuestion req out rm w) = Inl e"
      using r a by (simp add: generateQuestion_eq)
  }
  {
    assume "\<exists>j. out = Response 401 j"
    then show "fst (generateQuestion req out rm w) = Inr (getSampleQuestion (g_type req))"
      using r a by (simp add: generateQuestion_eq)
  }
qed

theorem generateQuestion_falls_back_when_unauthenticated_after_failure_witness:
  "\<not> isAuthenticated guest
   \<and> fst (request ''/questions/generate'' (Some ''POST'') (GenerateBody weaken_request)
        (Rejected NonError :: Question fetch_outcome) Resolves guest) = Inl NonError
   \<and> fst (generateQuestion weaken_request (Rejected NonError) Resolves guest)
        = Inr (QuestionObj sample_weaken)
   \<and> q_type sample_weaken = ''weaken''
   \<and> isAuthenticated signed_in
   \<and> (\<forall>j. (Response 500 (Inl NonError) :: Question fetch_outcome) \<noteq> Response 401 j)
   \<and> fst (request ''/questions/generate'' (Some ''POST'') (GenerateBody strengthen_request)
        (Response 500 (Inl NonError) :: Question fetch_outcome) Resolves signed_in)
        = Inl (Error ''HTTP error! status: 500'')
   \<and> fst (generateQuestion strengthen_request (Response 500 (Inl NonError)) Resolves signed_in)
        = Inl (Error ''HTTP error! status: 500'')"
proof -
  have 1: "fst (request ''/questions/generate'' (Some ''POST'') (GenerateBody weaken_request)
        (Rejected NonError :: Question fetch_outcome) Resolves guest) = Inl NonError"
    by (simp add: request_eq)
  have 2: "fst (request ''/questions/generate'' (Some ''POST'') (GenerateBody strengthen_request)
        (Response 500 (Inl NonError) :: Question fetch_outcome) Resolves signed_in)
        = Inl (Error ''HTTP error! status: 500'')"
    by (simp add: request_eq ok_def show_500)
  have 3: "getSampleQuestion (g_type weaken_request) = QuestionObj sample_weaken"
    using getSampleQuestion_category [of Weaken] by (simp add: weaken_request_def)
  have 4: "q_type sample_weaken = ''weaken''"
    using sample_type [of Weaken] by simp
  show ?thesis
    using 1 2 3 4 auth_signed_in auth_guest
      generateQuestion_falls_back_when_unauthenticated_after_failure
        [of Weaken weaken_request "Rejected NonError" Resolves guest]
      generateQuestion_falls_back_when_unauthenticated_after_failure
        [of Strengthen strengthen_request "Response 500 (Inl NonError)" Resolves signed_in]
    by simp
qed

text \<open>
  C1 as stated fails: an authenticated caller whose request is answered with 401 gets
  the sample question, not the Gateway's error.
\<close>

theorem generateQuestion_authenticated_401_returns_sample:
  "isAuthenticated signed_in
   \<and> fst (request ''/questions/generate'' (Some ''POST'') (GenerateBody strengthen_request)
        (Response 401 (Inl NonError) :: Question fetch_outcome) Resolves signed_in)
        = Inl (Error ''Authentication failed'')
   \<and> fst (generateQuestion strengthen_request (Response 401 (Inl NonError)) Resolves signed_in)
        = Inr (QuestionObj sample_strengthen)"
proof -
  have "getSampleQuestion (g_type strengthen_request) = QuestionObj sample_strengthen"
    using getSampleQuestion_category [of Strengthen] by (simp add: strengthen_request_def)
  moreover have "\<not> isAuthenticated (snd (request ''/questions/generate'' (Some ''POST'')
        (GenerateBody strengthen_request)
        (Response 401 (Inl NonError) :: Question fetch_outcome) Resolves signed_in))"
    by (simp add: request_401 removeToken_eq isAuthenticated_def truthy_def)
  ultimately show ?thesis
    using auth_signed_in by (simp add: generateQuestion_eq request_401 split: prod.splits)
qed

section \<open>Content Fallback Resolver\<close>

text \<open>
  C6 at the input \<open>constructor\<close>, which is none of the four categories: the property
  read finds the member inherited from \<open>Object.prototype\<close>, which is truthy, so the
  default after \<open>||\<close> is not taken and the result is not the \<open>strengthen\<close> sample.
\<close>

theorem getSampleQuestion_inherited_name:
  "getSampleQuestion ''constructor'' = ObjectPrototypeMember ''constructor''
   \<and> getSampleQuestion ''strengthen'' = QuestionObj sample_strengthen
   \<and> getSampleQuestion ''constructor'' \<noteq> getSampleQuestion ''strengthen''
   \<and> ''constructor'' \<notin> set (map category_name [Strengthen, Weaken, Assumption, Flaw])"
  by (simp add: getSampleQuestion_def get_property_def sampleQuestions_def object_prototype_members_def)

text \<open>For every other unknown name the default is taken.\<close>

lemma getSampleQuestion_default:
  "t \<notin> set (map category_name [Strengthen, Weaken, Assumption, Flaw]) \<Longrightarrow>
   t \<notin> set object_prototype_members \<Longrightarrow>
   getSampleQuestion t = getSampleQuestion ''strengthen''"
  by (simp add: getSampleQuestion_def get_property_def sampleQuestions_def)

section \<open>Question lifecycle\<close>

text \<open>
  C8. \<open>handleSubmit\<close> turns \<open>showExplanation\<close> on only when a question and a non-empty
  selection are present and \<open>submitAnswer\<close> resolved, and then it does turn it on, keeping
  the selection. When \<open>submitAnswer\<close> fails, the selection and the question are kept,
  the explanation stays hidden, \<open>loading\<close> is off again and the failure alert is raised.
  \<open>handleAnswerSelect\<close> never touches \<open>showExplanation\<close>; once the explanation is shown
  it changes nothing at all, before that it records the chosen option.
\<close>

theorem graded_only_after_successful_submit:
  "(showExplanation (fst (handleSubmit now out rm (ui, w))) \<and> \<not> showExplanation ui \<longrightarrow>
      (\<exists>q a result. currentQuestion ui = Some q \<and> selectedAnswer ui = Some a \<and> a \<noteq> []
         \<and> fst (submitAnswer (submission now ui q a) out rm w) = Inr result))
   \<and> (\<forall>q a result. currentQuestion ui = Some q \<and> selectedAnswer ui = Some a \<and> a \<noteq> []
         \<and> fst (submitAnswer (submission now ui q a) out rm w) = Inr result \<longrightarrow>
         showExplanation (fst (handleSubmit now out rm (ui, w)))
       \<and> selectedAnswer (fst (handleSubmit now out rm (ui, w))) = Some a)
   \<and> (\<forall>q a e. currentQuestion ui = Some q \<and> selectedAnswer ui = Some a \<and> a \<noteq> []
         \<and> \<not> showExplanation ui
         \<and> fst (submitAnswer (submission now ui q a) out rm w) = Inl e \<longrightarrow>
         selectedAnswer (fst (handleSubmit now out rm (ui, w))) = Some a
       \<and> currentQuestion (fst (handleSubmit now out rm (ui, w))) = Some q
       \<and> \<not> showExplanation (fst (handleSubmit now out rm (ui, w)))
       \<and> \<not> loading (fst (handleSubmit now out rm (ui, w)))
       \<and> alerts (fst (handleSubmit now out rm (ui, w))) = alerts ui @ [FailedToSubmitAnswer])
   \<and> showExplanation (handleAnswerSelect answer ui) = showExplanation ui
   \<and> (showExplanation ui \<longrightarrow> handleAnswerSelect answer ui = ui)
   \<and> (\<not> showExplanation ui \<longrightarrow> selectedAnswer (handleAnswerSelect answer ui) = Some answer)"
proof (intro conjI allI impI)
  assume g: "showExplanation (fst (handleSubmit now out rm (ui, w))) \<and> \<not> showExplanation ui"
  show "\<exists>q a result. currentQuestion ui = Some q \<and> selectedAnswer ui = Some a \<and> a \<noteq> []
         \<and> fst (submitAnswer (submission now ui q a) out rm w) = Inr result"
  proof (cases "\<not> truthy (selectedAnswer ui) \<or> currentQuestion ui = None")
    case True
    then show ?thesis using g handleSubmit_unready [OF True] by simp
  next
    case False
    then obtain a q where r: "selectedAnswer ui = Some a" "a \<noteq> []" "currentQuestion ui = Some q"
      by (auto simp add: truthy_def split: option.splits)
    obtain res w' where s: "submitAnswer (submission now ui q a) out rm w = (res, w')"
      by (cases "submitAnswer (submission now ui q a) out rm w")
    show ?thesis
    proof (cases res)
      case (Inl e)
      then show ?thesis using g r s by (simp add: handleSubmit_ready)
    next
      case (Inr result)
      then show ?thesis using r s by simp
    qed
  qed
next
  fix q a result
  assume "currentQuestion ui = Some q \<and> selectedAnswer ui = Some a \<and> a \<noteq> []
         \<and> fst (submitAnswer (submission now ui q a) out rm w) = Inr result"
  then show "showExplanation (fst (handleSubmit now out rm (ui, w)))"
    and "selectedAnswer (fst (handleSubmit now out rm (ui, w))) = Some a"
    by (auto simp add: handleSubmit_ready split: prod.splits sum.splits)
next
  fix q a e
  assume h: "currentQuestion ui = Some q \<and> selectedAnswer ui = Some a \<and> a \<noteq> []
         \<and> \<not> showExplanation ui
         \<and> fst (submitAnswer (submission now ui q a) out rm w) = Inl e"
  then obtain w' where s: "submitAnswer (submission now ui q a) out rm w = (Inl e, w')"
    by (cases "submitAnswer (submission now ui q a) out rm w") simp
  have eq: "fst (handleSubmit now out rm (ui, w)) =
      ui\<lparr>alerts := alerts ui @ [FailedToSubmitAnswer], loading := False\<rparr>"
    using h s by (simp add: handleSubmit_ready)
  show "selectedAnswer (fst (handleSubmit now out rm (ui, w))) = Some a"
    using h by (simp add: eq)
  show "currentQuestion (fst (handleSubmit now out rm (ui, w))) = Some q"
    using h by (simp add: eq)
  show "\<not> showExplanation (fst (handleSubmit now out rm (ui, w)))"
    using h by (simp add: eq)
  show "\<not> loading (fst (handleSubmit now out rm (ui, w)))"
    by (simp add: eq)
  show "alerts (fst (handleSubmit now out rm (ui, w))) = alerts ui @ [FailedToSubmitAnswer]"
    by (simp add: eq)
next
  show "showExplanation (handleAnswerSelect answer ui) = showExplanation ui"
    by (simp add: handleAnswerSelect_def)
next
  assume "showExplanation ui"
  then show "handleAnswerSelect answer ui = ui"
    by (simp add: handleAnswerSelect_def)
next
  assume "\<not> showExplanation ui"
  then show "selectedAnswer (handleAnswerSelect answer ui) = Some answer"
    by (simp add: handleAnswerSelect_def)
qed

theorem graded_only_after_successful_submit_witness:
  "\<not> showExplanation answering
   \<and> currentQuestion answering = Some sample_strengthen
   \<and> selectedAnswer answering = Some ''B''
   \<and> fst (submitAnswer (submission 4000 answering sample_strengthen ''B'')
        (Response 200 (Inr graded_ok)) Resolves signed_in) = Inr graded_ok
   \<and> showExplanation (fst (handleSubmit 4000 (Response 200 (Inr graded_ok)) Resolves
        (answering, signed_in)))
   \<and> fst (submitAnswer (submission 4000 answering sample_strengthen ''B'')
        (Rejected NonError) Resolves signed_in) = Inl NonError
   \<and> selectedAnswer (fst (handleSubmit 4000 (Rejected NonError) Resolves
        (answering, signed_in))) = Some ''B''
   \<and> \<not> showExplanation (fst (handleSubmit 4000 (Rejected NonError) Resolves
        (answering, signed_in)))
   \<and> showExplanation graded_state
   \<and> handleAnswerSelect ''C'' graded_state = graded_state"
proof -
  have a: "\<not> showExplanation answering" "currentQuestion answering = Some sample_strengthen"
    "selectedAnswer answering = Some ''B''"
    by (simp_all add: answering_def)
  have ok: "fst (submitAnswer (submission 4000 answering sample_strengthen ''B'')
        (Response 200 (Inr graded_ok)) Resolves signed_in) = Inr graded_ok"
    by (simp add: submitAnswer_def request_eq ok_def)
  have ko: "fst (submitAnswer (submission 4000 answering sample_strengthen ''B'')
        (Rejected NonError) Resolves signed_in) = Inl NonError"
    by (simp add: submitAnswer_def request_eq)
  have g: "showExplanation graded_state"
    by (simp add: graded_state_def)
  show ?thesis
    using a ok ko g
      graded_only_after_successful_submit
        [of 4000 "Response 200 (Inr graded_ok)" Resolves answering signed_in "''C''"]
      graded_only_after_successful_submit
        [of 4000 "Rejected NonError" Resolves answering signed_in "''C''"]
      graded_only_after_successful_submit
        [of 4000 "Rejected NonError" Resolves graded_state signed_in "''C''"]
    by simp
qed

end
